theory Spec2Isabelle
  imports Complex_Main "HOL-Library.Stream" "HOL-Library.Sublist"
begin

section \<open>A price alert bot: conditions, cooldown, and the monitoring loop\<close>

text \<open>
  The development embeds \<^verbatim>\<open>main.py\<close>: the class \<^verbatim>\<open>PriceCondition\<close> and the class
  \<^verbatim>\<open>CryptoAlertBot\<close> with its monitoring loop. Python floats (prices, clock readings) are
  read as real numbers; rounding is outside the model. The parameters
  \<^verbatim>\<open>cooldown_period\<close> and \<^verbatim>\<open>check_interval\<close> are documented as times in seconds and are
  natural numbers here.
\<close>

subsection \<open>Python values and exceptions\<close>

datatype error =
    ValueError | TypeError | KeyError | AttributeError | OverflowError | JSONDecodeError

text \<open>A value as \<^verbatim>\<open>json.load\<close> and \<^verbatim>\<open>response.json()\<close> return it. An object is the list
  of its items, keys distinct, as a Python dict holds them.\<close>

datatype json =
    JNull | JBool bool | JNum real | JStr string | JArr "json list"
  | JObj "(string \<times> json) list"

text \<open>\<^verbatim>\<open>bool(v)\<close>, the truth value \<^verbatim>\<open>all\<close> tests.\<close>

fun truthy :: "json \<Rightarrow> bool" where
  "truthy JNull = False"
| "truthy (JBool b) = b"
| "truthy (JNum r) = (r \<noteq> 0)"
| "truthy (JStr s) = (s \<noteq> [])"
| "truthy (JArr xs) = (xs \<noteq> [])"
| "truthy (JObj kvs) = (kvs \<noteq> [])"

text \<open>\<^verbatim>\<open>v[k]\<close> for a string key: only a dict has string keys.\<close>

fun py_getitem :: "json \<Rightarrow> string \<Rightarrow> error + json" where
  "py_getitem (JObj kvs) k = (case map_of kvs k of None \<Rightarrow> Inl KeyError | Some v \<Rightarrow> Inr v)"
| "py_getitem _ k = Inl TypeError"

text \<open>\<^verbatim>\<open>v.get(k)\<close>: \<^verbatim>\<open>None\<close> for a missing key.\<close>

fun py_get :: "json \<Rightarrow> string \<Rightarrow> error + json" where
  "py_get (JObj kvs) k = (case map_of kvs k of None \<Rightarrow> Inr JNull | Some v \<Rightarrow> Inr v)"
| "py_get _ k = Inl AttributeError"

text \<open>\<^verbatim>\<open>v.values()\<close>.\<close>

fun py_values :: "json \<Rightarrow> error + json list" where
  "py_values (JObj kvs) = Inr (map snd kvs)"
| "py_values _ = Inl AttributeError"

text \<open>\<^verbatim>\<open>k in v\<close> for a string \<^verbatim>\<open>k\<close>: a key of a dict, an element of a list, a
  substring of a string; a type error on anything else.\<close>

fun py_contains :: "json \<Rightarrow> string \<Rightarrow> error + bool" where
  "py_contains (JObj kvs) k = Inr (k \<in> set (map fst kvs))"
| "py_contains (JArr xs) k = Inr (JStr k \<in> set xs)"
| "py_contains (JStr s) k = Inr (sublist k s)"
| "py_contains _ k = Inl TypeError"

text \<open>Formatting with a float format (\<^verbatim>\<open>:.8f\<close>, \<^verbatim>\<open>:,.2f\<close>): a number formats (a
  bool is the number 0 or 1), a string raises \<^verbatim>\<open>ValueError\<close>, anything else
  \<^verbatim>\<open>TypeError\<close>. The result is the number that is printed.\<close>

fun format_f :: "json \<Rightarrow> error + real" where
  "format_f (JNum r) = Inr r"
| "format_f (JBool b) = Inr (if b then 1 else 0)"
| "format_f (JStr s) = Inl ValueError"
| "format_f _ = Inl TypeError"

subsection \<open>The conversion \<^verbatim>\<open>float(x)\<close>\<close>

text \<open>The values a caller can pass for a target price.\<close>

datatype pyvalue = PyNone | PyBool bool | PyInt int | PyFloat real | PyStr string

definition is_space :: "char \<Rightarrow> bool" where
  "is_space c = ((of_char c :: nat) \<in> set [9, 10, 11, 12, 13, 32])"

definition is_digit :: "char \<Rightarrow> bool" where
  "is_digit c = (48 \<le> (of_char c :: nat) \<and> (of_char c :: nat) \<le> 57)"

text \<open>\<^verbatim>\<open>str.lower\<close> on ASCII text, which coin identifiers are.\<close>

definition lower_char :: "char \<Rightarrow> char" where
  "lower_char c =
     (let n = (of_char c :: nat) in if 65 \<le> n \<and> n \<le> 90 then char_of (n + 32) else c)"

definition lower :: "string \<Rightarrow> string" where
  "lower s = map lower_char s"

text \<open>A digit part: digits, with single underscores between digits.\<close>

fun digitpart :: "string \<Rightarrow> bool" where
  "digitpart [] = False"
| "digitpart [c] = is_digit c"
| "digitpart (c # d # cs) =
     (is_digit c \<and> (if d = CHR ''_'' then digitpart cs else digitpart (d # cs)))"

definition digits_value :: "string \<Rightarrow> nat" where
  "digits_value s = foldl (\<lambda>n c. 10 * n + ((of_char c :: nat) - 48)) 0 (filter is_digit s)"

text \<open>A number: a digit part, a point and a digit part, or one of the two with the point.\<close>

definition number_value :: "string \<Rightarrow> real option" where
  "number_value s =
     (let ip = takeWhile (\<lambda>c. c \<noteq> CHR ''.'') s; rest = dropWhile (\<lambda>c. c \<noteq> CHR ''.'') s in
      case rest of
        [] \<Rightarrow> if digitpart ip then Some (real (digits_value ip)) else None
      | dot # fp \<Rightarrow>
          if (ip = [] \<or> digitpart ip) \<and> (fp = [] \<or> digitpart fp) \<and> \<not> (ip = [] \<and> fp = [])
          then Some (real (digits_value ip)
                     + real (digits_value fp) / 10 ^ length (filter is_digit fp))
          else None)"

text \<open>An exponent, after its letter: an optional sign and a digit part.\<close>

definition exponent_value :: "string \<Rightarrow> int option" where
  "exponent_value s =
     (case s of
        [] \<Rightarrow> None
      | c # cs \<Rightarrow>
          if c = CHR ''-'' then (if digitpart cs then Some (- int (digits_value cs)) else None)
          else if c = CHR ''+'' then (if digitpart cs then Some (int (digits_value cs)) else None)
          else if digitpart s then Some (int (digits_value s)) else None)"

text \<open>The floats \<^verbatim>\<open>inf\<close> and \<^verbatim>\<open>nan\<close> are no real numbers: converting their literals
  succeeds, and the model leaves the value unspecified.\<close>

definition non_finite :: real where
  "non_finite = undefined"

text \<open>\<^verbatim>\<open>float(s)\<close> for a string: white space around the literal is dropped; the literal is
  an optional sign and then \<^verbatim>\<open>inf\<close>, \<^verbatim>\<open>infinity\<close> or \<^verbatim>\<open>nan\<close> in any case, or a number
  with an optional exponent. \<^verbatim>\<open>None\<close> is the \<^verbatim>\<open>ValueError\<close> of a string that is no
  literal.\<close>

definition float_of_string :: "string \<Rightarrow> real option" where
  "float_of_string s =
     (let t = rev (dropWhile is_space (rev (dropWhile is_space s)));
          negative = (t \<noteq> [] \<and> hd t = CHR ''-'');
          u = (if t \<noteq> [] \<and> (hd t = CHR ''-'' \<or> hd t = CHR ''+'') then tl t else t);
          sgn = (if negative then - 1 else 1 :: real);
          m = takeWhile (\<lambda>c. c \<noteq> CHR ''e'' \<and> c \<noteq> CHR ''E'') u;
          r = dropWhile (\<lambda>c. c \<noteq> CHR ''e'' \<and> c \<noteq> CHR ''E'') u
      in if lower u \<in> set [''inf'', ''infinity'', ''nan''] then Some non_finite
         else
           (case number_value m of
              None \<Rightarrow> None
            | Some v \<Rightarrow>
                (case r of
                   [] \<Rightarrow> Some (sgn * v)
                 | e # x \<Rightarrow>
                     (case exponent_value x of
                        None \<Rightarrow> None
                      | Some k \<Rightarrow>
                          Some (sgn * v * (if 0 \<le> k then 10 ^ nat k else 1 / 10 ^ nat (- k)))))))"

text \<open>\<^verbatim>\<open>float(x)\<close>: \<^verbatim>\<open>TypeError\<close> for \<^verbatim>\<open>None\<close>, \<^verbatim>\<open>OverflowError\<close> for an int that rounds
  beyond the largest float, \<^verbatim>\<open>ValueError\<close> for a string that is no float literal.\<close>

definition py_float :: "pyvalue \<Rightarrow> error + real" where
  "py_float x =
     (case x of
        PyNone \<Rightarrow> Inl TypeError
      | PyBool b \<Rightarrow> Inr (if b then 1 else 0)
      | PyInt i \<Rightarrow> if \<bar>i\<bar> \<ge> 2 ^ 1024 - 2 ^ 970 then Inl OverflowError else Inr (real_of_int i)
      | PyFloat r \<Rightarrow> Inr r
      | PyStr s \<Rightarrow> (case float_of_string s of None \<Rightarrow> Inl ValueError | Some r \<Rightarrow> Inr r))"

subsection \<open>PriceCondition\<close>

record PriceCondition =
  target_price :: real
  condition_type :: string

text \<open>\<^verbatim>\<open>PriceCondition.__init__\<close>: the target is converted first, and what the conversion
  raises leaves the constructor.\<close>

definition PriceCondition_init :: "pyvalue \<Rightarrow> string \<Rightarrow> error + PriceCondition" where
  "PriceCondition_init target ctype =
     (case py_float target of
        Inl e \<Rightarrow> Inl e
      | Inr t \<Rightarrow>
          if ctype \<notin> set [''above'', ''below''] then Inl ValueError
          else Inr \<lparr>target_price = t, condition_type = ctype\<rparr>)"

definition is_met :: "PriceCondition \<Rightarrow> real \<Rightarrow> bool" where
  "is_met c current_price =
     (if condition_type c = ''above'' then current_price \<ge> target_price c
      else current_price \<le> target_price c)"

subsection \<open>The world outside the process\<close>

datatype level = INFO | WARNING | ERROR

datatype message =
    StartingMonitoring string
  | AlertTypesEnabled "string list"
  | MonitoringCondition PriceCondition
  | CurrentPrice string real json
  | AlertConditionMet PriceCondition
  | EmailNotConfigured
  | EmailSent
  | ErrorSendingEmail
  | SoundOnlyMacOS
  | SoundFileNotFound string
  | SoundPlayed
  | ErrorPlayingSound
  | CoinNotFound string
  | NetworkHTTPError
  | UnexpectedError
  | ShuttingDown
  | MonitoringStopped

text \<open>What the process does to the outside, in order.\<close>

datatype event =
    Log level message
  | HttpGet string
  | SmtpSSL json json PriceCondition
  | Afplay string
  | Sleep nat
  | WriteFile string json

datatype http_failure = Timeout | ConnectionError | HTTPError nat | InvalidJSONError

text \<open>What \<^verbatim>\<open>requests.get\<close>, \<^verbatim>\<open>raise_for_status\<close> and \<^verbatim>\<open>response.json\<close> do together:
  raise a \<^verbatim>\<open>RequestException\<close>, raise another exception, or return the parsed body.\<close>

datatype http_outcome =
    RequestException http_failure
  | OtherException
  | JsonBody json

datatype file_content = JsonFile json | NotJson

text \<open>The outside is a record of oracles, each a stream read from its head: the readings
  of \<^verbatim>\<open>time.time()\<close>, the outcomes of the HTTP requests, whether the SMTP session goes
  through, whether \<^verbatim>\<open>afplay\<close> exits with status 0, and whether a termination signal
  arrives during a sleep. Files are a map from paths to contents; opening a path for
  writing succeeds. A signal is delivered in the sleep phase only.\<close>

record world =
  clock :: "real stream"
  http :: "http_outcome stream"
  smtp :: "bool stream"
  afplay :: "bool stream"
  signals :: "bool stream"
  platform_system :: string
  files :: "string \<rightharpoonup> file_content"
  environ :: "string \<rightharpoonup> string"
  trace :: "event list"

definition emit :: "event \<Rightarrow> world \<Rightarrow> world" where
  "emit e w = w\<lparr>trace := trace w @ [e]\<rparr>"

definition logging :: "level \<Rightarrow> message \<Rightarrow> world \<Rightarrow> world" where
  "logging l m w = emit (Log l m) w"

definition time_time :: "world \<Rightarrow> real \<times> world" where
  "time_time w = (shd (clock w), w\<lparr>clock := stl (clock w)\<rparr>)"

definition getenv :: "world \<Rightarrow> string \<Rightarrow> string \<Rightarrow> string" where
  "getenv w name dflt = (case environ w name of None \<Rightarrow> dflt | Some v \<Rightarrow> v)"

subsection \<open>CryptoAlertBot\<close>

record bot =
  coin_id :: string
  conditions :: "PriceCondition list"
  alert_types :: "string list"
  last_alert_time :: "real option"
  cooldown_period :: nat
  check_interval :: nat
  sound_file :: string
  config_file :: string
  running :: bool
  config :: json

record market_data =
  price :: json
  volume :: json
  change :: json

text \<open>\<^verbatim>\<open>should_send_alert\<close>: the clock is read only when an alert was sent before.\<close>

definition should_send_alert :: "bot \<Rightarrow> world \<Rightarrow> bool \<times> world" where
  "should_send_alert b w =
     (case last_alert_time b of
        None \<Rightarrow> (True, w)
      | Some t0 \<Rightarrow>
          (case time_time w of (t, w') \<Rightarrow> (t - t0 \<ge> real (cooldown_period b), w')))"

text \<open>The result of a call made for its effect: it returns, or an exception leaves it.\<close>

datatype outcome = Done | Raised error

text \<open>\<^verbatim>\<open>save_config\<close> and \<^verbatim>\<open>load_config\<close>. The constructor calls \<^verbatim>\<open>load_config\<close> before
  the object is complete, so the model passes \<^verbatim>\<open>self.config_file\<close> itself. A missing
  file is \<^verbatim>\<open>FileNotFoundError\<close>, the one exception handled.\<close>

definition save_config :: "string \<Rightarrow> json \<Rightarrow> world \<Rightarrow> world" where
  "save_config path cfg w =
     emit (WriteFile path cfg) (w\<lparr>files := (files w)(path \<mapsto> JsonFile cfg)\<rparr>)"

definition default_config :: "world \<Rightarrow> json" where
  "default_config w =
     JObj [(''email'', JObj [(''sender_email'', JStr (getenv w ''SENDER_EMAIL'' [])),
                             (''sender_password'', JStr (getenv w ''SENDER_PASSWORD'' [])),
                             (''receiver_email'', JStr (getenv w ''RECEIVER_EMAIL'' []))]),
           (''notification_preferences'', JObj [(''price_history'', JBool True),
                                                (''volume_alert'', JBool True)])]"

definition load_config :: "string \<Rightarrow> world \<Rightarrow> (error + json) \<times> world" where
  "load_config path w =
     (case files w path of
        Some (JsonFile j) \<Rightarrow> (Inr j, w)
      | Some NotJson \<Rightarrow> (Inl JSONDecodeError, w)
      | None \<Rightarrow> (let cfg = default_config w in (Inr cfg, save_config path cfg w)))"

text \<open>An argument that is one item or a list of them.\<close>

datatype 'a one_or_list = One 'a | Listed "'a list"

fun as_list :: "'a one_or_list \<Rightarrow> 'a list" where
  "as_list (One x) = [x]"
| "as_list (Listed xs) = xs"

text \<open>\<^verbatim>\<open>CryptoAlertBot.__init__\<close>, every argument given.\<close>

definition CryptoAlertBot_init ::
  "string \<Rightarrow> PriceCondition one_or_list \<Rightarrow> string one_or_list \<Rightarrow> nat \<Rightarrow> nat \<Rightarrow> string \<Rightarrow> string
     \<Rightarrow> world \<Rightarrow> (error + bot) \<times> world" where
  "CryptoAlertBot_init cid conds alerts cooldown interval sound cfile w =
     (case load_config cfile w of
        (Inl e, w') \<Rightarrow> (Inl e, w')
      | (Inr cfg, w') \<Rightarrow>
          (Inr \<lparr>coin_id = lower cid, conditions = as_list conds, alert_types = as_list alerts,
                last_alert_time = None, cooldown_period = cooldown, check_interval = interval,
                sound_file = sound, config_file = cfile, running = True, config = cfg\<rparr>, w'))"

definition handle_shutdown :: "bot \<Rightarrow> world \<Rightarrow> bot \<times> world" where
  "handle_shutdown b w = (b\<lparr>running := False\<rparr>, logging INFO ShuttingDown w)"

text \<open>\<^verbatim>\<open>get_current_price\<close>: every exception inside is caught, so the result is a
  snapshot or \<^verbatim>\<open>None\<close>.\<close>

definition get_current_price :: "bot \<Rightarrow> world \<Rightarrow> market_data option \<times> world" where
  "get_current_price b w =
     (let w1 = emit (HttpGet (coin_id b)) (w\<lparr>http := stl (http w)\<rparr>) in
      case shd (http w) of
        RequestException f \<Rightarrow> (None, logging ERROR NetworkHTTPError w1)
      | OtherException \<Rightarrow> (None, logging ERROR UnexpectedError w1)
      | JsonBody data \<Rightarrow>
          (case py_contains data (coin_id b) of
             Inl e \<Rightarrow> (None, logging ERROR UnexpectedError w1)
           | Inr False \<Rightarrow> (None, logging ERROR (CoinNotFound (coin_id b)) w1)
           | Inr True \<Rightarrow>
               (case py_getitem data (coin_id b) of
                  Inl e \<Rightarrow> (None, logging ERROR UnexpectedError w1)
                | Inr entry \<Rightarrow>
                    (case py_getitem entry ''usd'' of
                       Inl e \<Rightarrow> (None, logging ERROR UnexpectedError w1)
                     | Inr p \<Rightarrow>
                         (case py_get entry ''usd_24h_vol'' of
                            Inl e \<Rightarrow> (None, logging ERROR UnexpectedError w1)
                          | Inr v \<Rightarrow>
                              (case py_get entry ''usd_24h_change'' of
                                 Inl e \<Rightarrow> (None, logging ERROR UnexpectedError w1)
                               | Inr ch \<Rightarrow>
                                   (Some \<lparr>price = p, volume = v, change = ch\<rparr>, w1)))))))"

text \<open>\<^verbatim>\<open>send_email_alert\<close>. The subject and the body are built before the \<^verbatim>\<open>try\<close>: the
  price and the volume are formatted as floats there, and the three credentials are read
  from the config. Whatever is raised inside the \<^verbatim>\<open>try\<close> is logged.\<close>

definition send_email_alert ::
  "bot \<Rightarrow> market_data \<Rightarrow> PriceCondition \<Rightarrow> world \<Rightarrow> outcome \<times> world" where
  "send_email_alert b md c w =
     (case py_getitem (config b) ''email'' of
        Inl e \<Rightarrow> (Raised e, w)
      | Inr em \<Rightarrow>
     (case py_values em of
        Inl e \<Rightarrow> (Raised e, w)
      | Inr vs \<Rightarrow>
     if \<not> list_all truthy vs then (Done, logging ERROR EmailNotConfigured w)
     else
     (case format_f (price md) of
        Inl e \<Rightarrow> (Raised e, w)
      | Inr p \<Rightarrow>
     (case format_f (volume md) of
        Inl e \<Rightarrow> (Raised e, w)
      | Inr v \<Rightarrow>
     (case py_getitem em ''sender_email'' of
        Inl e \<Rightarrow> (Raised e, w)
      | Inr sender \<Rightarrow>
     (case py_getitem em ''sender_password'' of
        Inl e \<Rightarrow> (Raised e, w)
      | Inr password \<Rightarrow>
     (case py_getitem em ''receiver_email'' of
        Inl e \<Rightarrow> (Raised e, w)
      | Inr receiver \<Rightarrow>
          (let w1 = emit (SmtpSSL sender receiver c) (w\<lparr>smtp := stl (smtp w)\<rparr>) in
           if shd (smtp w) then (Done, logging INFO EmailSent w1)
           else (Done, logging ERROR ErrorSendingEmail w1)))))))))"

definition play_sound_alert :: "bot \<Rightarrow> world \<Rightarrow> world" where
  "play_sound_alert b w =
     (if platform_system w \<noteq> ''Darwin'' then logging WARNING SoundOnlyMacOS w
      else if files w (sound_file b) = None
        then logging ERROR (SoundFileNotFound (sound_file b)) w
      else
        (let w1 = emit (Afplay (sound_file b)) (w\<lparr>afplay := stl (afplay w)\<rparr>) in
         if shd (afplay w) then logging INFO SoundPlayed w1
         else logging ERROR ErrorPlayingSound w1))"

text \<open>The loop over \<^verbatim>\<open>self.alert_types\<close> in \<^verbatim>\<open>start_monitoring\<close>: one fan-out.\<close>

fun dispatch_alerts ::
  "string list \<Rightarrow> bot \<Rightarrow> market_data \<Rightarrow> PriceCondition \<Rightarrow> world \<Rightarrow> outcome \<times> world" where
  "dispatch_alerts [] b md c w = (Done, w)"
| "dispatch_alerts (a # rest) b md c w =
     (if a = ''email'' then
        (case send_email_alert b md c w of
           (Raised e, w') \<Rightarrow> (Raised e, w')
         | (Done, w') \<Rightarrow> dispatch_alerts rest b md c w')
      else if a = ''sound'' then dispatch_alerts rest b md c (play_sound_alert b w)
      else dispatch_alerts rest b md c w)"

text \<open>The loop over \<^verbatim>\<open>self.conditions\<close>: the gate is asked for every condition that is
  met, and the alert time is recorded after each fan-out.\<close>

fun check_conditions ::
  "PriceCondition list \<Rightarrow> real \<Rightarrow> market_data \<Rightarrow> bot \<Rightarrow> world \<Rightarrow> outcome \<times> bot \<times> world" where
  "check_conditions [] p md b w = (Done, b, w)"
| "check_conditions (c # cs) p md b w =
     (if is_met c p then
        (case should_send_alert b w of
           (False, w1) \<Rightarrow> check_conditions cs p md b w1
         | (True, w1) \<Rightarrow>
             (case dispatch_alerts (alert_types b) b md c
                     (logging INFO (AlertConditionMet c) w1) of
                (Raised e, w2) \<Rightarrow> (Raised e, b, w2)
              | (Done, w2) \<Rightarrow>
                  (case time_time w2 of
                     (t, w3) \<Rightarrow> check_conditions cs p md (b\<lparr>last_alert_time := Some t\<rparr>) w3)))
      else check_conditions cs p md b w)"

text \<open>\<^verbatim>\<open>time.sleep\<close>; a signal that arrives meanwhile runs the handler.\<close>

definition time_sleep :: "nat \<Rightarrow> bot \<Rightarrow> world \<Rightarrow> bot \<times> world" where
  "time_sleep secs b w =
     (let w1 = emit (Sleep secs) (w\<lparr>signals := stl (signals w)\<rparr>) in
      if shd (signals w) then handle_shutdown b w1 else (b, w1))"

text \<open>The body of the \<^verbatim>\<open>while\<close> loop: one poll cycle.\<close>

definition poll_cycle :: "bot \<Rightarrow> world \<Rightarrow> outcome \<times> bot \<times> world" where
  "poll_cycle b w =
     (case get_current_price b w of
        (None, w1) \<Rightarrow> (case time_sleep (check_interval b) b w1 of (b', w') \<Rightarrow> (Done, b', w'))
      | (Some md, w1) \<Rightarrow>
          (case format_f (price md) of
             Inl e \<Rightarrow> (Raised e, b, w1)
           | Inr p \<Rightarrow>
               (case check_conditions (conditions b) p md b
                       (logging INFO (CurrentPrice (coin_id b) p (change md)) w1) of
                  (Raised e, b2, w2) \<Rightarrow> (Raised e, b2, w2)
                | (Done, b2, w2) \<Rightarrow>
                    (case time_sleep (check_interval b2) b2 w2 of (b', w') \<Rightarrow> (Done, b', w')))))"

text \<open>The \<^verbatim>\<open>while self.running\<close> loop. It need not end: the result is \<^verbatim>\<open>None\<close> then.
  An exception that leaves a cycle leaves the loop.\<close>

partial_function (option) monitor_loop :: "bot \<Rightarrow> world \<Rightarrow> (outcome \<times> bot \<times> world) option" where
  "monitor_loop b w =
     (if running b then
        (case poll_cycle b w of
           (Raised e, b', w') \<Rightarrow> Some (Raised e, b', w')
         | (Done, b', w') \<Rightarrow> monitor_loop b' w')
      else Some (Done, b, logging INFO MonitoringStopped w))"

definition start_monitoring :: "bot \<Rightarrow> world \<Rightarrow> (outcome \<times> bot \<times> world) option" where
  "start_monitoring b w =
     monitor_loop b
       (fold (\<lambda>c. logging INFO (MonitoringCondition c)) (conditions b)
          (logging INFO (AlertTypesEnabled (alert_types b))
             (logging INFO (StartingMonitoring (coin_id b)) w)))"

text \<open>The number of fan-outs a trace holds: each starts with the log line
  \<^verbatim>\<open>Alert condition met\<close>.\<close>

fun alerted :: "event \<Rightarrow> PriceCondition list" where
  "alerted (Log l (AlertConditionMet c)) = [c]"
| "alerted _ = []"

text \<open>The conditions the fan-outs of a trace were for, in order.\<close>

definition fan_out_conditions :: "event list \<Rightarrow> PriceCondition list" where
  "fan_out_conditions evs = concat (map alerted evs)"

definition fan_outs :: "event list \<Rightarrow> nat" where
  "fan_outs evs = length (fan_out_conditions evs)"

subsection \<open>A concrete bot and a concrete outside\<close>

text \<open>The bot of the script's entry point, with credentials in its config, and an outside
  in which every call goes through: the clock advances by one second per reading, the
  provider quotes the prices 70, 63, 65, 81 and then 81 again.\<close>

definition example_config :: json where
  "example_config =
     JObj [(''email'', JObj [(''sender_email'', JStr ''bot@example.org''),
                             (''sender_password'', JStr ''secret''),
                             (''receiver_email'', JStr ''owner@example.org'')]),
           (''notification_preferences'', JObj [(''price_history'', JBool True),
                                                (''volume_alert'', JBool True)])]"

definition example_bot :: bot where
  "example_bot =
     \<lparr>coin_id = ''official-trump'',
      conditions = [\<lparr>target_price = 64, condition_type = ''below''\<rparr>,
                    \<lparr>target_price = 80, condition_type = ''above''\<rparr>,
                    \<lparr>target_price = 100, condition_type = ''above''\<rparr>],
      alert_types = [''sound'', ''email''],
      last_alert_time = None, cooldown_period = 300, check_interval = 60,
      sound_file = ''Ping.aiff'', config_file = ''crypto_config.json'',
      running = True, config = example_config\<rparr>"

definition quote :: "real \<Rightarrow> http_outcome" where
  "quote p =
     JsonBody (JObj [(''official-trump'',
       JObj [(''usd'', JNum p), (''usd_24h_vol'', JNum 1000000), (''usd_24h_change'', JNum 2)])])"

definition example_world :: world where
  "example_world =
     \<lparr>clock = siterate (\<lambda>t. t + 1) 1000,
      http = smap quote ([70, 63, 65, 81] @- sconst 81),
      smtp = sconst True, afplay = sconst True, signals = sconst False,
      platform_system = ''Darwin'',
      files = [''Ping.aiff'' \<mapsto> NotJson, ''crypto_config.json'' \<mapsto> JsonFile example_config],
      environ = Map.empty,
      trace = []\<rparr>"

definition example_snapshot :: market_data where
  "example_snapshot = \<lparr>price = JNum 63, volume = JNum 1000000, change = JNum 2\<rparr>"

text \<open>A body that quotes the price alone, without the 24h volume and the 24h change.\<close>

definition bare_quote :: "real \<Rightarrow> http_outcome" where
  "bare_quote p = JsonBody (JObj [(''official-trump'', JObj [(''usd'', JNum p)])])"

text \<open>A body that quotes a price of any kind for the coin.\<close>

definition raw_quote :: "json \<Rightarrow> http_outcome" where
  "raw_quote v = JsonBody (JObj [(''official-trump'', JObj [(''usd'', v)])])"

text \<open>A config file whose sender password is the empty string.\<close>

definition no_password_config :: json where
  "no_password_config =
     JObj [(''email'', JObj [(''sender_email'', JStr ''bot@example.org''),
                             (''sender_password'', JStr []),
                             (''receiver_email'', JStr ''owner@example.org'')]),
           (''notification_preferences'', JObj [(''price_history'', JBool True),
                                                (''volume_alert'', JBool True)])]"

lemmas example_defs =
  example_bot_def example_world_def example_config_def quote_def example_snapshot_def

lemmas op_defs = poll_cycle_def get_current_price_def time_sleep_def handle_shutdown_def
  send_email_alert_def play_sound_alert_def should_send_alert_def time_time_def emit_def
  logging_def is_met_def

lemmas float_defs = float_of_string_def number_value_def exponent_value_def digits_value_def
  is_digit_def is_space_def lower_def lower_char_def py_float_def PriceCondition_init_def

section \<open>What each operation leaves alone\<close>

text \<open>Only \<^verbatim>\<open>should_send_alert\<close> and the recording of the alert time read the clock, only
  the sleep consumes a signal, and only the conditions loop starts a fan-out.\<close>

lemma fan_out_conditions_simps [simp]:
  "fan_out_conditions [] = []"
  "fan_out_conditions (evs @ evs') = fan_out_conditions evs @ fan_out_conditions evs'"
  "fan_out_conditions (e # evs) = alerted e @ fan_out_conditions evs"
  by (simp_all add: fan_out_conditions_def)

lemma emit_fields [simp]:
  "clock (emit e w) = clock w" "signals (emit e w) = signals w"
  "trace (emit e w) = trace w @ [e]"
  by (simp_all add: emit_def)

lemma logging_fields [simp]:
  "clock (logging l m w) = clock w" "signals (logging l m w) = signals w"
  "trace (logging l m w) = trace w @ [Log l m]"
  by (simp_all add: logging_def)

lemma send_email_alert_frame:
  "clock (snd (send_email_alert b md c w)) = clock w
   \<and> signals (snd (send_email_alert b md c w)) = signals w
   \<and> fan_out_conditions (trace (snd (send_email_alert b md c w))) = fan_out_conditions (trace w)"
  by (simp add: send_email_alert_def Let_def split: sum.splits)

lemma play_sound_alert_frame:
  "clock (play_sound_alert b w) = clock w
   \<and> signals (play_sound_alert b w) = signals w
   \<and> fan_out_conditions (trace (play_sound_alert b w)) = fan_out_conditions (trace w)"
  by (simp add: play_sound_alert_def Let_def)

lemma dispatch_alerts_frame:
  "clock (snd (dispatch_alerts as b md c w)) = clock w
   \<and> signals (snd (dispatch_alerts as b md c w)) = signals w
   \<and> fan_out_conditions (trace (snd (dispatch_alerts as b md c w))) = fan_out_conditions (trace w)"
proof (induction as arbitrary: w)
  case Nil
  show ?case by simp
next
  case (Cons a rest)
  show ?case
  proof (cases "a = ''email''")
    case True
    obtain r w' where e: "send_email_alert b md c w = (r, w')" by (cases "send_email_alert b md c w")
    with send_email_alert_frame [of b md c w] have fr: "clock w' = clock w" "signals w' = signals w"
      "fan_out_conditions (trace w') = fan_out_conditions (trace w)" by simp_all
    show ?thesis using True e fr Cons.IH [of w'] by (cases r) simp_all
  next
    case False
    then show ?thesis using Cons.IH [of "play_sound_alert b w"] Cons.IH [of w]
        play_sound_alert_frame [of b w] by simp
  qed
qed

lemma get_current_price_frame:
  "clock (snd (get_current_price b w)) = clock w
   \<and> signals (snd (get_current_price b w)) = signals w
   \<and> fan_out_conditions (trace (snd (get_current_price b w))) = fan_out_conditions (trace w)"
  by (simp add: get_current_price_def Let_def split: http_outcome.splits sum.splits bool.splits)

lemma should_send_alert_frame:
  "signals (snd (should_send_alert b w)) = signals w
   \<and> trace (snd (should_send_alert b w)) = trace w
   \<and> clock (snd (should_send_alert b w)) = (if last_alert_time b = None then clock w else stl (clock w))"
  by (simp add: should_send_alert_def time_time_def split: option.splits)

lemma time_sleep_frame:
  "last_alert_time (fst (time_sleep n b w)) = last_alert_time b
   \<and> cooldown_period (fst (time_sleep n b w)) = cooldown_period b
   \<and> fan_out_conditions (trace (snd (time_sleep n b w))) = fan_out_conditions (trace w)"
  by (simp add: time_sleep_def handle_shutdown_def Let_def)

lemma time_sleep_trace:
  "trace (snd (time_sleep n b w))
     = trace w @ [Sleep n] @ (if shd (signals w) then [Log INFO ShuttingDown] else [])"
  by (simp add: time_sleep_def handle_shutdown_def Let_def)

lemma check_conditions_frame:
  "signals (snd (snd (check_conditions cs p md b w))) = signals w
   \<and> (\<exists>l. fst (snd (check_conditions cs p md b w)) = b\<lparr>last_alert_time := l\<rparr>)"
proof (induction cs arbitrary: b w)
  case Nil
  have "\<exists>l. b = b\<lparr>last_alert_time := l\<rparr>"
    by (rule exI [of _ "last_alert_time b"]) simp
  then show ?case by simp
next
  case (Cons c cs)
  show ?case
  proof (cases "is_met c p")
    case False
    then show ?thesis using Cons.IH [of b w] by simp
  next
    case True
    obtain g w1 where g: "should_send_alert b w = (g, w1)" by (cases "should_send_alert b w")
    with should_send_alert_frame [of b w] have w1: "signals w1 = signals w" by simp
    show ?thesis
    proof (cases g)
      case False
      then show ?thesis using True g w1 Cons.IH [of b w1] by simp
    next
      case gate: True
      obtain r w2 where d: "dispatch_alerts (alert_types b) b md c
          (logging INFO (AlertConditionMet c) w1) = (r, w2)"
        by (cases "dispatch_alerts (alert_types b) b md c (logging INFO (AlertConditionMet c) w1)")
      with dispatch_alerts_frame [of "alert_types b" b md c "logging INFO (AlertConditionMet c) w1"]
      have w2: "signals w2 = signals w" using w1 by simp
      show ?thesis
      proof (cases r)
        case (Raised e)
        have "\<exists>l. b = b\<lparr>last_alert_time := l\<rparr>"
          by (rule exI [of _ "last_alert_time b"]) simp
        then show ?thesis using True g gate d Raised w2 by simp
      next
        case Done
        let ?b2 = "b\<lparr>last_alert_time := Some (shd (clock w2))\<rparr>"
        let ?w3 = "w2\<lparr>clock := stl (clock w2)\<rparr>"
        have eq: "check_conditions (c # cs) p md b w = check_conditions cs p md ?b2 ?w3"
          using True g gate d Done by (simp add: time_time_def)
        from Cons.IH [of ?b2 ?w3] obtain l where
          "signals (snd (snd (check_conditions cs p md ?b2 ?w3))) = signals w2"
          "fst (snd (check_conditions cs p md ?b2 ?w3)) = ?b2\<lparr>last_alert_time := l\<rparr>"
          by auto
        then show ?thesis unfolding eq using w2 by auto
      qed
    qed
  qed
qed

text \<open>With the gate closed at every clock reading the loop takes, one for each condition
  that is met, the conditions loop does nothing but read the clock.\<close>

lemma check_conditions_closed:
  "last_alert_time b = Some t1 \<Longrightarrow>
   \<forall>t\<in>set (stake (length (filter (\<lambda>c. is_met c p) cs)) (clock w)).
      t - t1 < real (cooldown_period b) \<Longrightarrow>
   fst (check_conditions cs p md b w) = Done
   \<and> fst (snd (check_conditions cs p md b w)) = b
   \<and> trace (snd (snd (check_conditions cs p md b w))) = trace w"
proof (induction cs arbitrary: w)
  case Nil
  show ?case by simp
next
  case (Cons c cs)
  show ?case
  proof (cases "is_met c p")
    case False
    then show ?thesis using Cons.IH [OF Cons.prems(1), of w] Cons.prems(2) by simp
  next
    case True
    have now: "shd (clock w) - t1 < real (cooldown_period b)"
      using Cons.prems(2) True by simp
    have later: "\<forall>t\<in>set (stake (length (filter (\<lambda>c. is_met c p) cs)) (stl (clock w))).
        t - t1 < real (cooldown_period b)"
      using Cons.prems(2) True by simp
    have g: "should_send_alert b w = (False, w\<lparr>clock := stl (clock w)\<rparr>)"
      using now Cons.prems(1) by (simp add: should_send_alert_def time_time_def)
    show ?thesis
      using True g Cons.IH [OF Cons.prems(1), of "w\<lparr>clock := stl (clock w)\<rparr>"] later by simp
  qed
qed

text \<open>With the gate open, the first condition that is met gets the one fan-out; the alert
  time recorded after it closes the gate for the rest of the loop.\<close>

lemma check_conditions_open:
  assumes gate: "should_send_alert b w = (True, wg)"
  shows "filter (\<lambda>c. is_met c p) cs \<noteq> [] \<Longrightarrow>
     fst (check_conditions cs p md b w) = Done \<Longrightarrow>
     \<forall>t\<in>set (stake (length (filter (\<lambda>c. is_met c p) cs) - 1) (stl (clock wg))).
        t - shd (clock wg) < real (cooldown_period b) \<Longrightarrow>
     fst (dispatch_alerts (alert_types b) b md (hd (filter (\<lambda>c. is_met c p) cs))
            (logging INFO (AlertConditionMet (hd (filter (\<lambda>c. is_met c p) cs))) wg)) = Done
     \<and> trace (snd (snd (check_conditions cs p md b w)))
         = trace (snd (dispatch_alerts (alert_types b) b md (hd (filter (\<lambda>c. is_met c p) cs))
            (logging INFO (AlertConditionMet (hd (filter (\<lambda>c. is_met c p) cs))) wg)))
     \<and> last_alert_time (fst (snd (check_conditions cs p md b w))) = Some (shd (clock wg))"
proof (induction cs)
  case Nil
  then show ?case by simp
next
  case (Cons c cs)
  show ?case
  proof (cases "is_met c p")
    case False
    then show ?thesis using Cons.IH Cons.prems by simp
  next
    case True
    obtain r w2 where d: "dispatch_alerts (alert_types b) b md c
        (logging INFO (AlertConditionMet c) wg) = (r, w2)"
      by (cases "dispatch_alerts (alert_types b) b md c (logging INFO (AlertConditionMet c) wg)")
    with dispatch_alerts_frame [of "alert_types b" b md c "logging INFO (AlertConditionMet c) wg"]
    have w2: "clock w2 = clock wg" by simp
    have r: "r = Done" using Cons.prems(2) True gate d by (cases r) simp_all
    let ?b2 = "b\<lparr>last_alert_time := Some (shd (clock wg))\<rparr>"
    let ?w3 = "w2\<lparr>clock := stl (clock w2)\<rparr>"
    have eq: "check_conditions (c # cs) p md b w = check_conditions cs p md ?b2 ?w3"
      using True gate d r w2 by (simp add: time_time_def)
    have win: "\<forall>t\<in>set (stake (length (filter (\<lambda>c. is_met c p) cs)) (clock ?w3)).
        t - shd (clock wg) < real (cooldown_period ?b2)"
      using Cons.prems(3) True w2 by simp
    have "fst (snd (check_conditions cs p md ?b2 ?w3)) = ?b2
      \<and> trace (snd (snd (check_conditions cs p md ?b2 ?w3))) = trace ?w3"
      using check_conditions_closed [of ?b2 "shd (clock wg)" p cs ?w3 md] win by simp
    then show ?thesis unfolding eq using True d r by simp
  qed
qed

text \<open>The loop, one step at a time.\<close>

lemma monitor_loop_step:
  "running b \<Longrightarrow> poll_cycle b w = (Done, b', w') \<Longrightarrow> monitor_loop b w = monitor_loop b' w'"
  by (subst monitor_loop.simps) simp

lemma monitor_loop_stop:
  "\<not> running b \<Longrightarrow> monitor_loop b w = Some (Done, b, logging INFO MonitoringStopped w)"
  by (subst monitor_loop.simps) simp

lemma poll_cycle_Done_sleep:
  assumes "fst (poll_cycle b w) = Done"
  shows "\<exists>b2 w2. poll_cycle b w = (Done, time_sleep (check_interval b) b2 w2)
     \<and> signals w2 = signals w"
proof (cases "fst (get_current_price b w)")
  case None
  then obtain w1 where g: "get_current_price b w = (None, w1)"
    by (cases "get_current_price b w") simp
  have "signals w1 = signals w" using get_current_price_frame [of b w] g by simp
  moreover have "poll_cycle b w = (Done, time_sleep (check_interval b) b w1)"
    using g by (simp add: poll_cycle_def split: prod.splits)
  ultimately show ?thesis by blast
next
  case (Some md)
  then obtain w1 where g: "get_current_price b w = (Some md, w1)"
    by (cases "get_current_price b w") simp
  have s1: "signals w1 = signals w" using get_current_price_frame [of b w] g by simp
  obtain p where num: "format_f (price md) = Inr p"
    using assms g by (cases "format_f (price md)") (simp_all add: poll_cycle_def)
  let ?wl = "logging INFO (CurrentPrice (coin_id b) p (change md)) w1"
  obtain r b2 w2 where cc: "check_conditions (conditions b) p md b ?wl = (r, b2, w2)"
    by (cases "check_conditions (conditions b) p md b ?wl")
  have r: "r = Done" using assms g num cc by (cases r) (simp_all add: poll_cycle_def)
  have fr: "signals w2 = signals w" "check_interval b2 = check_interval b"
    using check_conditions_frame [of "conditions b" p md b ?wl] cc s1 by auto
  have "poll_cycle b w = (Done, time_sleep (check_interval b) b2 w2)"
    using g num cc r fr by (simp add: poll_cycle_def split: prod.splits)
  then show ?thesis using fr by blast
qed

section \<open>Conditions\<close>

text \<open>
  Claim C4. For every price \<open>p\<close>, a condition with direction above and target \<open>t\<close> is met
  exactly when \<open>p \<ge> t\<close>, one with direction below exactly when \<open>p \<le> t\<close>; at \<open>p = t\<close> the
  condition is met in both directions.
\<close>

theorem is_met_threshold:
  "is_met \<lparr>target_price = t, condition_type = ''above''\<rparr> p = (p \<ge> t)
   \<and> is_met \<lparr>target_price = t, condition_type = ''below''\<rparr> p = (p \<le> t)
   \<and> is_met \<lparr>target_price = t, condition_type = ''above''\<rparr> t
   \<and> is_met \<lparr>target_price = t, condition_type = ''below''\<rparr> t"
  by (simp add: is_met_def)

text \<open>
  Claim C9, as the code has it. The constructor converts the target with \<^verbatim>\<open>float\<close> before
  it looks at the condition type: when the conversion raises, that exception leaves the
  constructor whatever the condition type is. When the conversion succeeds, as it does for
  every float, the constructor raises \<^verbatim>\<open>ValueError\<close> if and only if the condition type is
  neither \<^verbatim>\<open>above\<close> nor \<^verbatim>\<open>below\<close>, and otherwise the object holds the converted target and
  the condition type that was supplied.
\<close>

theorem PriceCondition_init_result:
  "(py_float x = Inl e \<longrightarrow> PriceCondition_init x ct = Inl e)
   \<and> (py_float x = Inr t \<longrightarrow>
        (PriceCondition_init x ct = Inl ValueError) = (ct \<noteq> ''above'' \<and> ct \<noteq> ''below'')
        \<and> ((\<exists>e'. PriceCondition_init x ct = Inl e') = (ct \<noteq> ''above'' \<and> ct \<noteq> ''below''))
        \<and> (ct = ''above'' \<or> ct = ''below'' \<longrightarrow>
             PriceCondition_init x ct = Inr \<lparr>target_price = t, condition_type = ct\<rparr>))
   \<and> py_float (PyFloat r) = Inr r
   \<and> (PriceCondition_init (PyFloat r) ct = Inl ValueError) = (ct \<noteq> ''above'' \<and> ct \<noteq> ''below'')
   \<and> (ct = ''above'' \<or> ct = ''below'' \<longrightarrow>
        PriceCondition_init (PyFloat r) ct = Inr \<lparr>target_price = r, condition_type = ct\<rparr>)"
  by (auto simp add: PriceCondition_init_def py_float_def)

theorem PriceCondition_init_result_witness:
  "PriceCondition_init (PyInt 64) ''below'' = Inr \<lparr>target_price = 64, condition_type = ''below''\<rparr>
   \<and> PriceCondition_init (PyStr ''80'') ''above''
       = Inr \<lparr>target_price = 80, condition_type = ''above''\<rparr>
   \<and> PriceCondition_init (PyFloat 80) ''sideways'' = Inl ValueError
   \<and> PriceCondition_init PyNone ''above'' = Inl TypeError"
proof -
  have 1: "py_float (PyInt 64) = Inr 64" by (simp add: py_float_def)
  have 2: "py_float (PyStr ''80'') = Inr 80" by (simp add: float_defs)
  have 3: "py_float PyNone = Inl TypeError" by (simp add: py_float_def)
  show ?thesis
    using PriceCondition_init_result [of "PyInt 64" _ "''below''" 64]
      PriceCondition_init_result [of "PyStr ''80''" _ "''above''" 80]
      PriceCondition_init_result [of PyNone TypeError "''above''" _ 80 ]
      PriceCondition_init_result [of PyNone TypeError "''sideways''" _ 80 ]
      1 2 3
    by simp
qed

text \<open>
  The claim as it was stated fails in both directions: a target that is no float literal
  raises \<^verbatim>\<open>ValueError\<close> although the condition type is \<^verbatim>\<open>above\<close>, and an int beyond the
  float range raises \<^verbatim>\<open>OverflowError\<close>, not \<^verbatim>\<open>ValueError\<close>, although the condition type is
  neither \<^verbatim>\<open>above\<close> nor \<^verbatim>\<open>below\<close>.
\<close>

theorem PriceCondition_init_result_counterexample:
  "PriceCondition_init (PyStr ''abc'') ''above'' = Inl ValueError
   \<and> PriceCondition_init (PyInt (10 ^ 400)) ''sideways'' = Inl OverflowError
   \<and> PriceCondition_init (PyInt (10 ^ 400)) ''sideways'' \<noteq> Inl ValueError"
  by (simp add: float_defs)

section \<open>The cooldown gate\<close>

text \<open>
  Claim C3. Before any alert was recorded the gate allows. After the alert time \<open>t0\<close> was
  recorded, with cooldown window \<open>W\<close>, the gate refuses at every clock reading \<open>t\<close> with
  \<open>t0 \<le> t < t0 + W\<close> and allows at every reading \<open>t \<ge> t0 + W\<close>.
\<close>

theorem cooldown_gate:
  "fst (should_send_alert (b\<lparr>last_alert_time := None\<rparr>) w)
   \<and> (t0 \<le> shd (clock w1) \<and> shd (clock w1) < t0 + real (cooldown_period b)
        \<longrightarrow> \<not> fst (should_send_alert (b\<lparr>last_alert_time := Some t0\<rparr>) w1))
   \<and> (shd (clock w2) \<ge> t0 + real (cooldown_period b)
        \<longrightarrow> fst (should_send_alert (b\<lparr>last_alert_time := Some t0\<rparr>) w2))"
  by (auto simp add: should_send_alert_def time_time_def)

theorem cooldown_gate_witness:
  "fst (should_send_alert (example_bot\<lparr>last_alert_time := None\<rparr>) example_world)
   \<and> \<not> fst (should_send_alert (example_bot\<lparr>last_alert_time := Some 1000\<rparr>)
              (example_world\<lparr>clock := sconst 1299\<rparr>))
   \<and> fst (should_send_alert (example_bot\<lparr>last_alert_time := Some 1000\<rparr>)
            (example_world\<lparr>clock := sconst 1300\<rparr>))"
  using cooldown_gate [of example_bot example_world 1000
      "example_world\<lparr>clock := sconst 1299\<rparr>" "example_world\<lparr>clock := sconst 1300\<rparr>"]
  by (simp add: example_bot_def)

section \<open>The fan-out\<close>

text \<open>
  Claim C10. In a fan-out, an alert type other than \<^verbatim>\<open>email\<close> and \<^verbatim>\<open>sound\<close> is skipped
  in silence: nothing is dispatched or logged for it and nothing is raised. The other alert
  types of the list are attempted in the order of the list, as if it were not there: a
  \<^verbatim>\<open>sound\<close> entry plays the sound and an \<^verbatim>\<open>email\<close> entry sends the email before the rest
  of the list is looked at.
\<close>

theorem unknown_alert_type_skipped:
  "(a \<noteq> ''email'' \<and> a \<noteq> ''sound'' \<longrightarrow>
      dispatch_alerts [a] b md c w = (Done, w)
      \<and> dispatch_alerts (xs @ a # ys) b md c w = dispatch_alerts (xs @ ys) b md c w)
   \<and> dispatch_alerts as b md c w
       = dispatch_alerts (filter (\<lambda>a. a = ''email'' \<or> a = ''sound'') as) b md c w
   \<and> dispatch_alerts (''sound'' # ys) b md c w = dispatch_alerts ys b md c (play_sound_alert b w)
   \<and> dispatch_alerts (''email'' # ys) b md c w
       = (case send_email_alert b md c w of
            (Done, w') \<Rightarrow> dispatch_alerts ys b md c w'
          | (Raised e, w') \<Rightarrow> (Raised e, w'))
   \<and> dispatch_alerts [] b md c w = (Done, w)"
proof -
  have skip: "a \<noteq> ''email'' \<and> a \<noteq> ''sound'' \<longrightarrow>
      dispatch_alerts (xs @ a # ys) b md c w = dispatch_alerts (xs @ ys) b md c w"
    by (induction xs arbitrary: w) (auto split: prod.splits outcome.splits)
  have known: "dispatch_alerts as b md c w
       = dispatch_alerts (filter (\<lambda>a. a = ''email'' \<or> a = ''sound'') as) b md c w"
    by (induction as arbitrary: w) (auto split: prod.splits outcome.splits)
  show ?thesis using skip known by (simp split: prod.splits outcome.splits)
qed

text \<open>With the sound played and the email sent, the list \<^verbatim>\<open>sound, telegram, email\<close>
  plays and then sends; the list \<^verbatim>\<open>telegram, email, sms, sound\<close> sends and then plays.\<close>

theorem unknown_alert_type_skipped_witness:
  "dispatch_alerts [''telegram''] example_bot example_snapshot (hd (conditions example_bot))
       example_world = (Done, example_world)
   \<and> fst (dispatch_alerts ([''sound''] @ ''telegram'' # [''email'']) example_bot example_snapshot
       (hd (conditions example_bot)) example_world) = Done
   \<and> trace (snd (dispatch_alerts ([''sound''] @ ''telegram'' # [''email'']) example_bot
       example_snapshot (hd (conditions example_bot)) example_world))
     = [Afplay ''Ping.aiff'', Log INFO SoundPlayed,
        SmtpSSL (JStr ''bot@example.org'') (JStr ''owner@example.org'')
          \<lparr>target_price = 64, condition_type = ''below''\<rparr>,
        Log INFO EmailSent]
   \<and> trace (snd (dispatch_alerts ([''telegram'', ''email''] @ ''sms'' # [''sound'']) example_bot
       example_snapshot (hd (conditions example_bot)) example_world))
     = [SmtpSSL (JStr ''bot@example.org'') (JStr ''owner@example.org'')
          \<lparr>target_price = 64, condition_type = ''below''\<rparr>,
        Log INFO EmailSent, Afplay ''Ping.aiff'', Log INFO SoundPlayed]"
proof -
  let ?c = "hd (conditions example_bot)"
  have ne: "''telegram'' \<noteq> ''email'' \<and> ''telegram'' \<noteq> ''sound''"
    "''sms'' \<noteq> ''email'' \<and> ''sms'' \<noteq> ''sound''"
    by simp_all
  from unknown_alert_type_skipped [of "''telegram''" example_bot example_snapshot ?c
      example_world "[''sound'']" "[''email'']"] ne(1)
  have s1: "dispatch_alerts [''telegram''] example_bot example_snapshot ?c example_world
      = (Done, example_world)"
    "dispatch_alerts ([''sound''] @ ''telegram'' # [''email'']) example_bot example_snapshot ?c
       example_world
     = dispatch_alerts ([''sound''] @ [''email'']) example_bot example_snapshot ?c example_world"
    by blast+
  from unknown_alert_type_skipped [of "''sms''" example_bot example_snapshot ?c
      example_world "[''telegram'', ''email'']" "[''sound'']"] ne(2)
  have s2: "dispatch_alerts ([''telegram'', ''email''] @ ''sms'' # [''sound'']) example_bot
       example_snapshot ?c example_world
     = dispatch_alerts ([''telegram'', ''email''] @ [''sound'']) example_bot example_snapshot ?c
       example_world"
    by blast
  have 1: "fst (dispatch_alerts ([''sound''] @ [''email'']) example_bot example_snapshot ?c
      example_world) = Done"
    "trace (snd (dispatch_alerts ([''sound''] @ [''email'']) example_bot example_snapshot ?c
      example_world))
     = [Afplay ''Ping.aiff'', Log INFO SoundPlayed,
        SmtpSSL (JStr ''bot@example.org'') (JStr ''owner@example.org'')
          \<lparr>target_price = 64, condition_type = ''below''\<rparr>,
        Log INFO EmailSent]"
    by (simp_all add: example_defs op_defs)
  have 2: "trace (snd (dispatch_alerts ([''telegram'', ''email''] @ [''sound'']) example_bot
      example_snapshot ?c example_world))
     = [SmtpSSL (JStr ''bot@example.org'') (JStr ''owner@example.org'')
          \<lparr>target_price = 64, condition_type = ''below''\<rparr>,
        Log INFO EmailSent, Afplay ''Ping.aiff'', Log INFO SoundPlayed]"
    by (simp add: example_defs op_defs)
  show ?thesis unfolding s1 s2 using 1 2 by blast
qed

section \<open>One fan-out per cycle\<close>

text \<open>
  Claim C1, as the code has it. In a poll cycle in which the fetch succeeds, the gate is
  open, two or more conditions are met by the fetched price, no exception leaves the cycle,
  and every clock reading taken in the rest of the conditions loop (one for each further
  condition that is met) is less than the cooldown window after the recorded alert time,
  exactly one fan-out occurs, for the first condition that is met: the cycle does that one
  dispatch over the alert types and then sleeps. The alert time is the clock reading taken
  right after the fan-out, and the gate is closed for every reading inside the window.
\<close>

theorem one_fan_out_per_cycle:
  assumes fetch: "get_current_price b w = (Some md, w1)"
    and num: "format_f (price md) = Inr p"
    and met: "2 \<le> length (filter (\<lambda>c. is_met c p) (conditions b))"
    and first: "c1 = hd (filter (\<lambda>c. is_met c p) (conditions b))"
    and gate: "should_send_alert b (logging INFO (CurrentPrice (coin_id b) p (change md)) w1)
                 = (True, wg)"
    and ok: "poll_cycle b w = (Done, b', w')"
    and window:
      "\<forall>t\<in>set (stake (length (filter (\<lambda>c. is_met c p) (conditions b)) - 1) (stl (clock wg))).
          t - shd (clock wg) < real (cooldown_period b)"
  shows "fan_outs (trace w') = fan_outs (trace w) + 1
     \<and> fan_out_conditions (trace w') = fan_out_conditions (trace w) @ [c1]
     \<and> (\<exists>wd. dispatch_alerts (alert_types b) b md c1 (logging INFO (AlertConditionMet c1) wg)
                = (Done, wd)
           \<and> trace w' = trace wd @ [Sleep (check_interval b)]
                 @ (if shd (signals w) then [Log INFO ShuttingDown] else []))
     \<and> last_alert_time b' = Some (shd (clock wg))
     \<and> (\<forall>wn. shd (clock wg) \<le> shd (clock wn)
           \<and> shd (clock wn) < shd (clock wg) + real (cooldown_period b)
           \<longrightarrow> \<not> fst (should_send_alert b' wn))"
proof -
  let ?wl = "logging INFO (CurrentPrice (coin_id b) p (change md)) w1"
  let ?met = "filter (\<lambda>c. is_met c p) (conditions b)"
  have ne: "?met \<noteq> []" using met by auto
  have fr1: "signals ?wl = signals w" "fan_out_conditions (trace ?wl) = fan_out_conditions (trace w)"
    using get_current_price_frame [of b w] fetch by simp_all
  have frg: "trace wg = trace ?wl"
    using should_send_alert_frame [of b ?wl] gate by simp
  obtain r b2 w2 where cc: "check_conditions (conditions b) p md b ?wl = (r, b2, w2)"
    by (cases "check_conditions (conditions b) p md b ?wl")
  have r: "r = Done" using ok fetch num cc by (cases r) (simp_all add: poll_cycle_def)
  have pc: "time_sleep (check_interval b2) b2 w2 = (b', w')"
    using ok fetch num cc r by (simp add: poll_cycle_def split: prod.splits)
  have fr2: "signals w2 = signals w" "check_interval b2 = check_interval b"
    "cooldown_period b2 = cooldown_period b"
    using check_conditions_frame [of "conditions b" p md b ?wl] cc fr1 by auto
  have res: "fst (dispatch_alerts (alert_types b) b md c1 (logging INFO (AlertConditionMet c1) wg))
        = Done
     \<and> trace w2 = trace (snd (dispatch_alerts (alert_types b) b md c1
                      (logging INFO (AlertConditionMet c1) wg)))
     \<and> last_alert_time b2 = Some (shd (clock wg))"
    using check_conditions_open [OF gate, of p "conditions b" md] ne cc r window first by simp
  then obtain wd where wd: "dispatch_alerts (alert_types b) b md c1
      (logging INFO (AlertConditionMet c1) wg) = (Done, wd)"
    by (cases "dispatch_alerts (alert_types b) b md c1 (logging INFO (AlertConditionMet c1) wg)")
      simp
  have tr2: "trace w2 = trace wd" and la2: "last_alert_time b2 = Some (shd (clock wg))"
    using res wd by simp_all
  have fwd: "fan_out_conditions (trace wd) = fan_out_conditions (trace w) @ [c1]"
    using dispatch_alerts_frame [of "alert_types b" b md c1 "logging INFO (AlertConditionMet c1) wg"]
      wd frg fr1 by simp
  have trw: "trace w' = trace wd @ [Sleep (check_interval b)]
      @ (if shd (signals w) then [Log INFO ShuttingDown] else [])"
    using time_sleep_trace [of "check_interval b2" b2 w2] pc tr2 fr2 by simp
  have fo: "fan_out_conditions (trace w') = fan_out_conditions (trace w) @ [c1]"
    unfolding trw using fwd by simp
  have b': "last_alert_time b' = Some (shd (clock wg))" "cooldown_period b' = cooldown_period b"
    using time_sleep_frame [of "check_interval b2" b2 w2] pc la2 fr2 by simp_all
  have closed: "\<forall>wn. shd (clock wg) \<le> shd (clock wn)
           \<and> shd (clock wn) < shd (clock wg) + real (cooldown_period b)
           \<longrightarrow> \<not> fst (should_send_alert b' wn)"
    using b' by (auto simp add: should_send_alert_def time_time_def)
  have n: "fan_outs (trace w') = fan_outs (trace w) + 1"
    using fo by (simp add: fan_outs_def)
  show ?thesis using n fo wd trw b' closed by blast
qed

text \<open>The bot with a cooldown of two seconds at the price 120: the conditions above 80 and
  above 100 are met, the one clock reading after the recorded alert time is one second
  later, and the fan-out is the one for above 80.\<close>

theorem one_fan_out_per_cycle_witness:
  "fan_outs (trace (snd (snd (poll_cycle (example_bot\<lparr>cooldown_period := 2\<rparr>)
       (example_world\<lparr>http := sconst (quote 120)\<rparr>))))) = 1
   \<and> fan_out_conditions (trace (snd (snd (poll_cycle (example_bot\<lparr>cooldown_period := 2\<rparr>)
       (example_world\<lparr>http := sconst (quote 120)\<rparr>)))))
       = [\<lparr>target_price = 80, condition_type = ''above''\<rparr>]
   \<and> last_alert_time (fst (snd (poll_cycle (example_bot\<lparr>cooldown_period := 2\<rparr>)
       (example_world\<lparr>http := sconst (quote 120)\<rparr>)))) = Some 1000
   \<and> trace (snd (snd (poll_cycle (example_bot\<lparr>cooldown_period := 2\<rparr>)
       (example_world\<lparr>http := sconst (quote 120)\<rparr>))))
       = [HttpGet ''official-trump'', Log INFO (CurrentPrice ''official-trump'' 120 (JNum 2)),
          Log INFO (AlertConditionMet \<lparr>target_price = 80, condition_type = ''above''\<rparr>),
          Afplay ''Ping.aiff'', Log INFO SoundPlayed,
          SmtpSSL (JStr ''bot@example.org'') (JStr ''owner@example.org'')
            \<lparr>target_price = 80, condition_type = ''above''\<rparr>,
          Log INFO EmailSent, Sleep 60]"
proof -
  let ?b = "example_bot\<lparr>cooldown_period := 2\<rparr>"
  let ?w = "example_world\<lparr>http := sconst (quote 120)\<rparr>"
  let ?md = "\<lparr>price = JNum 120, volume = JNum 1000000, change = JNum 2\<rparr>"
  let ?w1 = "snd (get_current_price ?b ?w)"
  let ?wl = "logging INFO (CurrentPrice (coin_id ?b) 120 (change ?md)) ?w1"
  let ?wg = "snd (should_send_alert ?b ?wl)"
  let ?c1 = "\<lparr>target_price = 80, condition_type = ''above''\<rparr>"
  have 1: "get_current_price ?b ?w = (Some ?md, ?w1)"
    by (simp add: example_defs get_current_price_def emit_def)
  have 2: "format_f (price ?md) = Inr 120" by simp
  have 3: "2 \<le> length (filter (\<lambda>c. is_met c 120) (conditions ?b))"
    by (simp add: example_defs is_met_def)
  have 4: "?c1 = hd (filter (\<lambda>c. is_met c 120) (conditions ?b))"
    by (simp add: example_defs is_met_def)
  have 5: "should_send_alert ?b ?wl = (True, ?wg)"
    by (simp add: example_defs should_send_alert_def)
  have 6: "poll_cycle ?b ?w = (Done, fst (snd (poll_cycle ?b ?w)), snd (snd (poll_cycle ?b ?w)))"
    by (simp add: example_defs op_defs)
  have 7: "\<forall>t\<in>set (stake (length (filter (\<lambda>c. is_met c 120) (conditions ?b)) - 1)
        (stl (clock ?wg))). t - shd (clock ?wg) < real (cooldown_period ?b)"
    by (simp add: example_defs op_defs)
  have 8: "shd (clock ?wg) = 1000" "trace ?w = []"
    by (simp_all add: example_defs op_defs)
  have 9: "trace (snd (snd (poll_cycle ?b ?w)))
       = [HttpGet ''official-trump'', Log INFO (CurrentPrice ''official-trump'' 120 (JNum 2)),
          Log INFO (AlertConditionMet ?c1), Afplay ''Ping.aiff'', Log INFO SoundPlayed,
          SmtpSSL (JStr ''bot@example.org'') (JStr ''owner@example.org'') ?c1,
          Log INFO EmailSent, Sleep 60]"
    by (simp add: example_defs op_defs)
  show ?thesis using one_fan_out_per_cycle [OF 1 2 3 4 5 6 7] 8 9 by (simp add: fan_outs_def)
qed

text \<open>
  The claim without the condition on the window fails: with a cooldown of 0 seconds the gate
  is open again at the second condition that is met, so a cycle with two conditions met
  has two fan-outs, and the gate is open after it.
\<close>

theorem one_fan_out_per_cycle_counterexample:
  "fst (get_current_price (example_bot\<lparr>cooldown_period := 0\<rparr>)
         (example_world\<lparr>http := sconst (quote 120)\<rparr>)) \<noteq> None
   \<and> fst (should_send_alert (example_bot\<lparr>cooldown_period := 0\<rparr>)
         (example_world\<lparr>http := sconst (quote 120)\<rparr>))
   \<and> length (filter (\<lambda>c. is_met c 120) (conditions (example_bot\<lparr>cooldown_period := 0\<rparr>))) = 2
   \<and> fst (poll_cycle (example_bot\<lparr>cooldown_period := 0\<rparr>)
         (example_world\<lparr>http := sconst (quote 120)\<rparr>)) = Done
   \<and> fan_outs (trace (snd (snd (poll_cycle (example_bot\<lparr>cooldown_period := 0\<rparr>)
         (example_world\<lparr>http := sconst (quote 120)\<rparr>))))) = 2
   \<and> fan_out_conditions (trace (snd (snd (poll_cycle (example_bot\<lparr>cooldown_period := 0\<rparr>)
         (example_world\<lparr>http := sconst (quote 120)\<rparr>)))))
       = [\<lparr>target_price = 80, condition_type = ''above''\<rparr>,
          \<lparr>target_price = 100, condition_type = ''above''\<rparr>]
   \<and> fst (should_send_alert
         (fst (snd (poll_cycle (example_bot\<lparr>cooldown_period := 0\<rparr>)
            (example_world\<lparr>http := sconst (quote 120)\<rparr>))))
         (snd (snd (poll_cycle (example_bot\<lparr>cooldown_period := 0\<rparr>)
            (example_world\<lparr>http := sconst (quote 120)\<rparr>)))))"
  by (simp add: example_defs op_defs fan_outs_def)

section \<open>A failing channel\<close>

text \<open>
  Claim C2 at a snapshot without the 24h volume. The alert types are \<^verbatim>\<open>email\<close> and then
  \<^verbatim>\<open>sound\<close>, the credentials are configured, the provider quotes 63 with no volume field,
  and the condition below 64 is met. Formatting the absent volume raises \<^verbatim>\<open>TypeError\<close> before
  the \<^verbatim>\<open>try\<close> of \<^verbatim>\<open>send_email_alert\<close>: the sound is never attempted, the exception leaves
  the cycle and the monitoring loop ends with it.
\<close>

theorem absent_volume_aborts_fan_out:
  "fst (get_current_price (example_bot\<lparr>alert_types := [''email'', ''sound'']\<rparr>)
          (example_world\<lparr>http := sconst (bare_quote 63)\<rparr>))
     = Some \<lparr>price = JNum 63, volume = JNull, change = JNull\<rparr>
   \<and> fst (poll_cycle (example_bot\<lparr>alert_types := [''email'', ''sound'']\<rparr>)
          (example_world\<lparr>http := sconst (bare_quote 63)\<rparr>)) = Raised TypeError
   \<and> trace (snd (snd (poll_cycle (example_bot\<lparr>alert_types := [''email'', ''sound'']\<rparr>)
          (example_world\<lparr>http := sconst (bare_quote 63)\<rparr>))))
     = [HttpGet ''official-trump'', Log INFO (CurrentPrice ''official-trump'' 63 JNull),
        Log INFO (AlertConditionMet \<lparr>target_price = 64, condition_type = ''below''\<rparr>)]
   \<and> map_option fst (monitor_loop (example_bot\<lparr>alert_types := [''email'', ''sound'']\<rparr>)
          (example_world\<lparr>http := sconst (bare_quote 63)\<rparr>)) = Some (Raised TypeError)"
  by (subst monitor_loop.simps) (simp add: example_defs op_defs bare_quote_def)

section \<open>A failing fetch\<close>

text \<open>A request that raises (a network timeout, an HTTP error status, a body that is not
  JSON) or a body without the coin id makes \<^verbatim>\<open>get_current_price\<close> return \<^verbatim>\<open>None\<close>.
  Whenever it returns \<^verbatim>\<open>None\<close>, no exception leaves the cycle, the cycle logs the one error
  and sleeps and does nothing else, the last alert time is unchanged, and a running loop
  goes on with the next cycle, or ends when a signal arrived in the sleep.\<close>

lemma fetch_None_skips_cycle:
  "((\<exists>f. shd (http w) = RequestException f) \<or> shd (http w) = OtherException
      \<or> (\<exists>d. shd (http w) = JsonBody d \<and> py_contains d (coin_id b) = Inr False)
     \<longrightarrow> fst (get_current_price b w) = None)
   \<and> (fst (get_current_price b w) = None \<longrightarrow>
        (\<exists>m. poll_cycle b w =
            (Done, time_sleep (check_interval b) b
               (logging ERROR m (emit (HttpGet (coin_id b)) (w\<lparr>http := stl (http w)\<rparr>))))
          \<and> trace (snd (snd (poll_cycle b w))) =
              trace w @ [HttpGet (coin_id b), Log ERROR m, Sleep (check_interval b)]
                @ (if shd (signals w) then [Log INFO ShuttingDown] else []))
        \<and> last_alert_time (fst (snd (poll_cycle b w))) = last_alert_time b
        \<and> (running b \<longrightarrow>
             monitor_loop b w = monitor_loop (fst (snd (poll_cycle b w))) (snd (snd (poll_cycle b w))))
        \<and> (running b \<and> shd (signals w) \<longrightarrow>
             monitor_loop b w = Some (Done, fst (snd (poll_cycle b w)),
                logging INFO MonitoringStopped (snd (snd (poll_cycle b w))))))"
proof -
  have kinds: "(\<exists>f. shd (http w) = RequestException f) \<or> shd (http w) = OtherException
      \<or> (\<exists>d. shd (http w) = JsonBody d \<and> py_contains d (coin_id b) = Inr False)
     \<longrightarrow> fst (get_current_price b w) = None"
    by (auto simp add: get_current_price_def Let_def)
  have noop: "\<exists>m. poll_cycle b w =
            (Done, time_sleep (check_interval b) b
               (logging ERROR m (emit (HttpGet (coin_id b)) (w\<lparr>http := stl (http w)\<rparr>))))
          \<and> trace (snd (snd (poll_cycle b w))) =
              trace w @ [HttpGet (coin_id b), Log ERROR m, Sleep (check_interval b)]
                @ (if shd (signals w) then [Log INFO ShuttingDown] else [])"
    if none: "fst (get_current_price b w) = None"
  proof -
    let ?w1 = "emit (HttpGet (coin_id b)) (w\<lparr>http := stl (http w)\<rparr>)"
    have "\<exists>m. get_current_price b w = (None, logging ERROR m ?w1)"
      using none
      by (auto simp add: get_current_price_def Let_def
          split: http_outcome.splits sum.splits bool.splits)
    then obtain m where g: "get_current_price b w = (None, logging ERROR m ?w1)" by blast
    have "poll_cycle b w = (Done, time_sleep (check_interval b) b (logging ERROR m ?w1))
      \<and> trace (snd (snd (poll_cycle b w))) =
              trace w @ [HttpGet (coin_id b), Log ERROR m, Sleep (check_interval b)]
                @ (if shd (signals w) then [Log INFO ShuttingDown] else [])"
      using g by (simp add: poll_cycle_def time_sleep_def handle_shutdown_def Let_def
          split: prod.splits)
    then show ?thesis by blast
  qed
  have rest: "last_alert_time (fst (snd (poll_cycle b w))) = last_alert_time b
        \<and> (running b \<longrightarrow>
             monitor_loop b w = monitor_loop (fst (snd (poll_cycle b w))) (snd (snd (poll_cycle b w))))
        \<and> (running b \<and> shd (signals w) \<longrightarrow>
             monitor_loop b w = Some (Done, fst (snd (poll_cycle b w)),
                logging INFO MonitoringStopped (snd (snd (poll_cycle b w)))))"
    if none: "fst (get_current_price b w) = None"
  proof -
    from noop [OF none] obtain m where
      pc: "poll_cycle b w = (Done, time_sleep (check_interval b) b
               (logging ERROR m (emit (HttpGet (coin_id b)) (w\<lparr>http := stl (http w)\<rparr>))))"
      by blast
    have la: "last_alert_time (fst (snd (poll_cycle b w))) = last_alert_time b"
      unfolding pc using time_sleep_frame by simp
    have step: "running b \<longrightarrow>
        monitor_loop b w = monitor_loop (fst (snd (poll_cycle b w))) (snd (snd (poll_cycle b w)))"
      using monitor_loop_step [of b w "fst (snd (poll_cycle b w))" "snd (snd (poll_cycle b w))"] pc
      by simp
    have "shd (signals w) \<longrightarrow> \<not> running (fst (snd (poll_cycle b w)))"
      unfolding pc by (simp add: time_sleep_def handle_shutdown_def Let_def)
    then have "running b \<and> shd (signals w) \<longrightarrow>
             monitor_loop b w = Some (Done, fst (snd (poll_cycle b w)),
                logging INFO MonitoringStopped (snd (snd (poll_cycle b w))))"
      using step monitor_loop_stop [of "fst (snd (poll_cycle b w))" "snd (snd (poll_cycle b w))"]
      by simp
    then show ?thesis using la step by blast
  qed
  show ?thesis using kinds noop rest by blast
qed

text \<open>
  Claim C5 at a malformed body. The provider answers with the coin id and a price that is
  no number: \<^verbatim>\<open>null\<close>, or the string \<^verbatim>\<open>63\<close>. \<^verbatim>\<open>get_current_price\<close> catches nothing and
  returns the snapshot; formatting the price for the log line of the cycle raises
  \<^verbatim>\<open>TypeError\<close> or \<^verbatim>\<open>ValueError\<close> outside every \<^verbatim>\<open>try\<close>: the cycle does not sleep, the
  exception leaves it, and the monitoring loop ends.
\<close>

theorem non_numeric_price_escapes_cycle:
  "fst (get_current_price example_bot (example_world\<lparr>http := sconst (raw_quote JNull)\<rparr>))
     = Some \<lparr>price = JNull, volume = JNull, change = JNull\<rparr>
   \<and> fst (poll_cycle example_bot (example_world\<lparr>http := sconst (raw_quote JNull)\<rparr>))
       = Raised TypeError
   \<and> trace (snd (snd (poll_cycle example_bot
        (example_world\<lparr>http := sconst (raw_quote JNull)\<rparr>))))
       = [HttpGet ''official-trump'']
   \<and> map_option fst (monitor_loop example_bot
        (example_world\<lparr>http := sconst (raw_quote JNull)\<rparr>)) = Some (Raised TypeError)
   \<and> fst (poll_cycle example_bot (example_world\<lparr>http := sconst (raw_quote (JStr ''63''))\<rparr>))
       = Raised ValueError
   \<and> trace (snd (snd (poll_cycle example_bot
        (example_world\<lparr>http := sconst (raw_quote (JStr ''63''))\<rparr>))))
       = [HttpGet ''official-trump'']
   \<and> map_option fst (monitor_loop example_bot
        (example_world\<lparr>http := sconst (raw_quote (JStr ''63''))\<rparr>)) = Some (Raised ValueError)"
proof -
  have 1: "map_option fst (monitor_loop example_bot
        (example_world\<lparr>http := sconst (raw_quote JNull)\<rparr>)) = Some (Raised TypeError)"
    by (subst monitor_loop.simps) (simp add: example_defs op_defs raw_quote_def)
  have 2: "map_option fst (monitor_loop example_bot
        (example_world\<lparr>http := sconst (raw_quote (JStr ''63''))\<rparr>)) = Some (Raised ValueError)"
    by (subst monitor_loop.simps) (simp add: example_defs op_defs raw_quote_def)
  show ?thesis using 1 2 by (simp add: example_defs op_defs raw_quote_def)
qed

section \<open>Shutdown\<close>

text \<open>
  Claim C6. The flag is tested at the top of every cycle: a loop entered with the flag down
  does nothing but log that monitoring stopped. When a termination signal arrives during the
  sleep of a cycle, that cycle is completed, its sleep is the last one (the wait that is left
  is at most one poll interval), and the loop ends without another fetch, evaluation or
  dispatch.
\<close>

theorem shutdown_during_sleep:
  "(\<not> running b \<longrightarrow> monitor_loop b w = Some (Done, b, logging INFO MonitoringStopped w))
   \<and> (running b \<and> fst (poll_cycle b w) = Done \<and> shd (signals w) \<longrightarrow>
        \<not> running (fst (snd (poll_cycle b w)))
        \<and> (\<exists>evs. trace (snd (snd (poll_cycle b w)))
              = evs @ [Sleep (check_interval b), Log INFO ShuttingDown])
        \<and> monitor_loop b w =
            Some (Done, fst (snd (poll_cycle b w)),
                  logging INFO MonitoringStopped (snd (snd (poll_cycle b w)))))"
proof -
  have stop: "\<not> running b \<longrightarrow> monitor_loop b w = Some (Done, b, logging INFO MonitoringStopped w)"
    using monitor_loop_stop by blast
  have sig: "\<not> running (fst (snd (poll_cycle b w)))
        \<and> (\<exists>evs. trace (snd (snd (poll_cycle b w)))
              = evs @ [Sleep (check_interval b), Log INFO ShuttingDown])
        \<and> monitor_loop b w =
            Some (Done, fst (snd (poll_cycle b w)),
                  logging INFO MonitoringStopped (snd (snd (poll_cycle b w))))"
    if run: "running b" and ok: "fst (poll_cycle b w) = Done" and s: "shd (signals w)"
  proof -
    from poll_cycle_Done_sleep [OF ok] obtain b2 w2 where
      pc: "poll_cycle b w = (Done, time_sleep (check_interval b) b2 w2)"
      and sg: "signals w2 = signals w" by blast
    have sl: "time_sleep (check_interval b) b2 w2 =
        (b2\<lparr>running := False\<rparr>,
         logging INFO ShuttingDown (emit (Sleep (check_interval b)) (w2\<lparr>signals := stl (signals w2)\<rparr>)))"
      using s sg by (simp add: time_sleep_def handle_shutdown_def Let_def)
    have nr: "\<not> running (fst (snd (poll_cycle b w)))" unfolding pc sl by simp
    have tr: "trace (snd (snd (poll_cycle b w)))
        = trace w2 @ [Sleep (check_interval b), Log INFO ShuttingDown]"
      unfolding pc sl by simp
    have "monitor_loop b w = monitor_loop (fst (snd (poll_cycle b w))) (snd (snd (poll_cycle b w)))"
      using monitor_loop_step [OF run, of w "fst (snd (poll_cycle b w))" "snd (snd (poll_cycle b w))"]
        ok by (cases "poll_cycle b w") simp
    then have "monitor_loop b w = Some (Done, fst (snd (poll_cycle b w)),
        logging INFO MonitoringStopped (snd (snd (poll_cycle b w))))"
      using monitor_loop_stop [OF nr] by simp
    then show ?thesis using nr tr by blast
  qed
  show ?thesis using stop sig by blast
qed

theorem shutdown_during_sleep_witness:
  "map_option (\<lambda>r. (fst r, running (fst (snd r)), trace (snd (snd r))))
     (monitor_loop example_bot (example_world\<lparr>signals := sconst True\<rparr>))
   = Some (Done, False,
       [HttpGet ''official-trump'', Log INFO (CurrentPrice ''official-trump'' 70 (JNum 2)),
        Sleep 60, Log INFO ShuttingDown, Log INFO MonitoringStopped])
   \<and> map_option (\<lambda>r. trace (snd (snd r)))
       (monitor_loop (example_bot\<lparr>running := False\<rparr>) example_world)
     = Some [Log INFO MonitoringStopped]"
proof -
  let ?w = "example_world\<lparr>signals := sconst True\<rparr>"
  have 1: "running example_bot" by (simp add: example_bot_def)
  have 2: "fst (poll_cycle example_bot ?w) = Done" by (simp add: example_defs op_defs)
  have 3: "shd (signals ?w)" by simp
  have 4: "running (fst (snd (poll_cycle example_bot ?w))) = False"
    "trace (snd (snd (poll_cycle example_bot ?w))) =
       [HttpGet ''official-trump'', Log INFO (CurrentPrice ''official-trump'' 70 (JNum 2)),
        Sleep 60, Log INFO ShuttingDown]"
    by (simp_all add: example_defs op_defs)
  have 5: "\<not> running (example_bot\<lparr>running := False\<rparr>)" "trace example_world = []"
    by (simp_all add: example_world_def)
  show ?thesis
    using shutdown_during_sleep [of example_bot ?w] 1 2 3 4
      shutdown_during_sleep [of "example_bot\<lparr>running := False\<rparr>" example_world] 5
    by simp
qed

section \<open>Email credentials\<close>

text \<open>
  Claim C7. When the sender email, the sender password or the receiver email of the config is
  the empty string, \<^verbatim>\<open>send_email_alert\<close> logs the configuration error once and returns: no
  SMTP session is opened, the fan-out goes on with the next alert type, and the constructor
  succeeds on such a config file.
\<close>

theorem empty_credential_no_send:
  "py_getitem (config b) ''email'' = Inr (JObj em)
   \<and> k \<in> {''sender_email'', ''sender_password'', ''receiver_email''}
   \<and> map_of em k = Some (JStr [])
   \<longrightarrow>
     send_email_alert b md c w = (Done, logging ERROR EmailNotConfigured w)
     \<and> dispatch_alerts (''email'' # rest) b md c w
         = dispatch_alerts rest b md c (logging ERROR EmailNotConfigured w)
     \<and> (files w0 cfile = Some (JsonFile (config b)) \<longrightarrow>
          CryptoAlertBot_init cid conds alerts cooldown interval sound cfile w0 =
            (Inr \<lparr>coin_id = lower cid, conditions = as_list conds, alert_types = as_list alerts,
                  last_alert_time = None, cooldown_period = cooldown, check_interval = interval,
                  sound_file = sound, config_file = cfile, running = True, config = config b\<rparr>,
             w0))"
proof (intro impI conjI)
  assume h: "py_getitem (config b) ''email'' = Inr (JObj em)
     \<and> k \<in> {''sender_email'', ''sender_password'', ''receiver_email''}
     \<and> map_of em k = Some (JStr [])"
  then have m: "(k, JStr []) \<in> set em" by (simp add: map_of_SomeD)
  have "\<not> truthy (snd (k, JStr []))" by simp
  with m have "\<exists>x\<in>set em. \<not> truthy (snd x)" by blast
  then have "\<not> list_all truthy (map snd em)" by (simp add: list_all_iff)
  then show e: "send_email_alert b md c w = (Done, logging ERROR EmailNotConfigured w)"
    using h by (simp add: send_email_alert_def)
  then show "dispatch_alerts (''email'' # rest) b md c w
         = dispatch_alerts rest b md c (logging ERROR EmailNotConfigured w)"
    by simp
next
  assume "files w0 cfile = Some (JsonFile (config b))"
  then show "CryptoAlertBot_init cid conds alerts cooldown interval sound cfile w0 =
            (Inr \<lparr>coin_id = lower cid, conditions = as_list conds, alert_types = as_list alerts,
                  last_alert_time = None, cooldown_period = cooldown, check_interval = interval,
                  sound_file = sound, config_file = cfile, running = True, config = config b\<rparr>,
             w0)"
    by (simp add: CryptoAlertBot_init_def load_config_def)
qed

theorem empty_credential_no_send_witness:
  "send_email_alert (example_bot\<lparr>config := no_password_config\<rparr>) example_snapshot
       (hd (conditions example_bot)) example_world
     = (Done, logging ERROR EmailNotConfigured example_world)
   \<and> dispatch_alerts [''email'', ''sound''] (example_bot\<lparr>config := no_password_config\<rparr>)
       example_snapshot (hd (conditions example_bot)) example_world
     = dispatch_alerts [''sound''] (example_bot\<lparr>config := no_password_config\<rparr>)
       example_snapshot (hd (conditions example_bot))
       (logging ERROR EmailNotConfigured example_world)
   \<and> (\<exists>b. fst (CryptoAlertBot_init ''official-trump'' (Listed (conditions example_bot))
          (One ''sound'') 300 60 ''Ping.aiff'' ''crypto_config.json''
          (example_world\<lparr>files := [''crypto_config.json'' \<mapsto> JsonFile no_password_config]\<rparr>))
        = Inr b)"
  using empty_credential_no_send [of "example_bot\<lparr>config := no_password_config\<rparr>"
      "[(''sender_email'', JStr ''bot@example.org''), (''sender_password'', JStr []),
        (''receiver_email'', JStr ''owner@example.org'')]"
      "''sender_password''" example_snapshot "hd (conditions example_bot)" example_world
      "[''sound'']"
      "example_world\<lparr>files := [''crypto_config.json'' \<mapsto> JsonFile no_password_config]\<rparr>"
      "''crypto_config.json''" "''official-trump''" "Listed (conditions example_bot)"
      "One ''sound''" 300 60 "''Ping.aiff''"]
  by (simp add: no_password_config_def)

section \<open>The config file\<close>

text \<open>
  Claim C8. Constructing the bot on a config file path that does not exist, with none of
  \<^verbatim>\<open>SENDER_EMAIL\<close>, \<^verbatim>\<open>SENDER_PASSWORD\<close>, \<^verbatim>\<open>RECEIVER_EMAIL\<close> set, writes the default config
  with empty email fields to that path, and the config of the bot is that default, which a
  second load reads back.
\<close>

theorem config_bootstrap:
  "files w cfile = None \<and> environ w ''SENDER_EMAIL'' = None
   \<and> environ w ''SENDER_PASSWORD'' = None \<and> environ w ''RECEIVER_EMAIL'' = None
   \<longrightarrow>
   (\<exists>b w'. CryptoAlertBot_init cid conds alerts cooldown interval sound cfile w = (Inr b, w')
      \<and> config b =
          JObj [(''email'', JObj [(''sender_email'', JStr []), (''sender_password'', JStr []),
                                  (''receiver_email'', JStr [])]),
                (''notification_preferences'', JObj [(''price_history'', JBool True),
                                                     (''volume_alert'', JBool True)])]
      \<and> files w' cfile = Some (JsonFile (config b))
      \<and> trace w' = trace w @ [WriteFile cfile (config b)]
      \<and> load_config cfile w' = (Inr (config b), w'))"
  by (simp add: CryptoAlertBot_init_def load_config_def save_config_def default_config_def
      getenv_def emit_def Let_def)

theorem config_bootstrap_witness:
  "\<exists>b w'. CryptoAlertBot_init ''Official-Trump'' (Listed (conditions example_bot))
        (Listed [''sound'', ''email'']) 300 60 ''Ping.aiff'' ''crypto_config.json''
        (example_world\<lparr>files := Map.empty\<rparr>) = (Inr b, w')
      \<and> config b =
          JObj [(''email'', JObj [(''sender_email'', JStr []), (''sender_password'', JStr []),
                                  (''receiver_email'', JStr [])]),
                (''notification_preferences'', JObj [(''price_history'', JBool True),
                                                     (''volume_alert'', JBool True)])]
      \<and> files w' ''crypto_config.json'' = Some (JsonFile (config b))
      \<and> trace w' = [WriteFile ''crypto_config.json'' (config b)]
      \<and> load_config ''crypto_config.json'' w' = (Inr (config b), w')"
  using config_bootstrap [of "example_world\<lparr>files := Map.empty\<rparr>" "''crypto_config.json''"
      "''Official-Trump''" "Listed (conditions example_bot)" "Listed [''sound'', ''email'']"
      300 60 "''Ping.aiff''"]
  by (simp add: example_world_def)

end
